theory Spec2Isabelle
  imports Main "HOL-Library.Word"
begin

section \<open>The rendering API as seen by renderer.h\<close>

text \<open>
  renderer.h talks to OpenGL only through calls. The model keeps the calls that were
  issued, oldest first, and takes from the driver what the code reads back from it:
  the names of new objects, the outcome of a shader compilation with its info log, and
  the location of a uniform. A name of 0 stands for an object that could not be made.
  The queries glGetShaderiv, glGetShaderInfoLog and glGetUniformLocation change nothing
  and are not among the calls kept. The characters written with fputc to stderr are
  kept beside the calls.
\<close>

type_synonym GLuint = "32 word"

datatype shader_type = GL_VERTEX_SHADER | GL_FRAGMENT_SHADER | GL_GEOMETRY_SHADER

text \<open>Modelled from the spec: the enum Primitive is declared in gl.h, which is not
  part of the sources at hand; the spec names triangles, lines and points.\<close>

datatype Primitive = TRIANGLES | LINES | POINTS

datatype t_attrib_id = attrib_position | attrib_normal | attrib_color

fun attrib_index :: "t_attrib_id \<Rightarrow> nat" where
  "attrib_index attrib_position = 0"
| "attrib_index attrib_normal = 1"
| "attrib_index attrib_color = 2"

subsection \<open>Vectors and matrices of glm\<close>

text \<open>
  glm stores a 4x4 matrix as four columns. The definitions below are glm's formulas
  with the scalars of a commutative ring in place of float: they fix which operations
  are applied and in which order, not the rounding, infinities or NaN of the machine
  numbers, and no property below reads the value of an entry.
\<close>

datatype 'a vec3 = Vec3 'a 'a 'a

datatype 'a vec4 = Vec4 'a 'a 'a 'a

datatype 'a quat = Quat 'a 'a 'a 'a

datatype 'a mat4 = Mat4 "'a vec4" "'a vec4" "'a vec4" "'a vec4"

fun vec4_add :: "'a::comm_ring_1 vec4 \<Rightarrow> 'a vec4 \<Rightarrow> 'a vec4" where
  "vec4_add (Vec4 a b c d) (Vec4 e f g h) = Vec4 (a + e) (b + f) (c + g) (d + h)"

fun vec4_scale :: "'a::comm_ring_1 vec4 \<Rightarrow> 'a \<Rightarrow> 'a vec4" where
  "vec4_scale (Vec4 a b c d) s = Vec4 (a * s) (b * s) (c * s) (d * s)"

definition mat4_identity :: "'a::comm_ring_1 mat4" where
  "mat4_identity = Mat4 (Vec4 1 0 0 0) (Vec4 0 1 0 0) (Vec4 0 0 1 0) (Vec4 0 0 0 1)"

text \<open>The column of a product: the columns of the left factor, weighted by the
  entries of the right factor's column.\<close>

fun mat4_mul_vec :: "'a::comm_ring_1 mat4 \<Rightarrow> 'a vec4 \<Rightarrow> 'a vec4" where
  "mat4_mul_vec (Mat4 c0 c1 c2 c3) (Vec4 x y z w) =
     vec4_add (vec4_add (vec4_add (vec4_scale c0 x) (vec4_scale c1 y)) (vec4_scale c2 z))
       (vec4_scale c3 w)"

fun mat4_mul :: "'a::comm_ring_1 mat4 \<Rightarrow> 'a mat4 \<Rightarrow> 'a mat4" where
  "mat4_mul m (Mat4 d0 d1 d2 d3) =
     Mat4 (mat4_mul_vec m d0) (mat4_mul_vec m d1) (mat4_mul_vec m d2) (mat4_mul_vec m d3)"

text \<open>glm::translate(m, v) keeps the first three columns of m and replaces the last
  by m[0] * v[0] + m[1] * v[1] + m[2] * v[2] + m[3].\<close>

fun glm_translate :: "'a::comm_ring_1 mat4 \<Rightarrow> 'a vec3 \<Rightarrow> 'a mat4" where
  "glm_translate (Mat4 c0 c1 c2 c3) (Vec3 x y z) =
     Mat4 c0 c1 c2
       (vec4_add (vec4_add (vec4_add (vec4_scale c0 x) (vec4_scale c1 y)) (vec4_scale c2 z)) c3)"

text \<open>glm::scale(m, v) multiplies the first three columns of m by v[0], v[1], v[2].\<close>

fun glm_scale :: "'a::comm_ring_1 mat4 \<Rightarrow> 'a vec3 \<Rightarrow> 'a mat4" where
  "glm_scale (Mat4 c0 c1 c2 c3) (Vec3 x y z) =
     Mat4 (vec4_scale c0 x) (vec4_scale c1 y) (vec4_scale c2 z) c3"

text \<open>glm::mat4_cast(q): the rotation matrix of the quaternion q = (w, x, y, z).\<close>

fun glm_mat4_cast :: "'a::comm_ring_1 quat \<Rightarrow> 'a mat4" where
  "glm_mat4_cast (Quat w x y z) =
     Mat4 (Vec4 (1 - 2 * (y * y + z * z)) (2 * (x * y + w * z)) (2 * (x * z - w * y)) 0)
          (Vec4 (2 * (x * y - w * z)) (1 - 2 * (x * x + z * z)) (2 * (y * z + w * x)) 0)
          (Vec4 (2 * (x * z + w * y)) (2 * (y * z - w * x)) (1 - 2 * (x * x + y * y)) 0)
          (Vec4 0 0 0 1)"

subsection \<open>Calls and driver\<close>

datatype ('a, 'v) gl_call =
    CreateShader shader_type GLuint
  | ShaderSource GLuint string
  | CompileShader GLuint
  | DeleteShader GLuint
  | CreateProgram GLuint
  | AttachShader GLuint GLuint
  | BindAttribLocation GLuint nat string
  | LinkProgram GLuint
  | UseProgram GLuint
  | GenVertexArrays GLuint
  | GenBuffers GLuint
  | BindVertexArray GLuint
  | BindBuffer GLuint
  | EnableVertexAttribArray nat
  | VertexAttribPointer nat nat GLuint nat nat
  | DeleteBuffers GLuint
  | BufferData nat "'v list" GLuint
  | DrawArrays Primitive GLuint GLuint
  | UniformMatrix4fv GLuint "'a mat4"

record ('a, 'v) gl_state =
  gl_calls :: "('a, 'v) gl_call list"
  gl_names :: "GLuint list"
  gl_compile :: "shader_type \<Rightarrow> string \<Rightarrow> string option"
  gl_uniform :: "GLuint \<Rightarrow> string \<Rightarrow> GLuint"
  gl_stderr :: string

text \<open>
  \<open>gl_names\<close> are the names the driver hands out next, one per object made (0 once
  they run out); \<open>gl_compile t src\<close> is \<open>None\<close> when the source compiles and the
  info log otherwise; \<open>gl_uniform p n\<close> is what glGetUniformLocation answers.
\<close>

definition emit :: "('a, 'v) gl_call \<Rightarrow> ('a, 'v) gl_state \<Rightarrow> ('a, 'v) gl_state" where
  "emit c s = s\<lparr>gl_calls := gl_calls s @ [c]\<rparr>"

definition fresh :: "('a, 'v) gl_state \<Rightarrow> GLuint \<times> ('a, 'v) gl_state" where
  "fresh s = (case gl_names s of [] \<Rightarrow> (0, s) | n # ns \<Rightarrow> (n, s\<lparr>gl_names := ns\<rparr>))"

definition glCreateShader :: "shader_type \<Rightarrow> ('a, 'v) gl_state \<Rightarrow> GLuint \<times> ('a, 'v) gl_state" where
  "glCreateShader t s = (let (n, s1) = fresh s in (n, emit (CreateShader t n) s1))"

definition glCreateProgram :: "('a, 'v) gl_state \<Rightarrow> GLuint \<times> ('a, 'v) gl_state" where
  "glCreateProgram s = (let (n, s1) = fresh s in (n, emit (CreateProgram n) s1))"

definition glGenVertexArrays :: "('a, 'v) gl_state \<Rightarrow> GLuint \<times> ('a, 'v) gl_state" where
  "glGenVertexArrays s = (let (n, s1) = fresh s in (n, emit (GenVertexArrays n) s1))"

definition glGenBuffers :: "('a, 'v) gl_state \<Rightarrow> GLuint \<times> ('a, 'v) gl_state" where
  "glGenBuffers s = (let (n, s1) = fresh s in (n, emit (GenBuffers n) s1))"

definition fputs :: "string \<Rightarrow> ('a, 'v) gl_state \<Rightarrow> ('a, 'v) gl_state" where
  "fputs cs s = s\<lparr>gl_stderr := gl_stderr s @ cs\<rparr>"

section \<open>ShaderProgram\<close>

definition loadShader ::
  "shader_type \<Rightarrow> string \<Rightarrow> ('a, 'v) gl_state \<Rightarrow> GLuint \<times> ('a, 'v) gl_state" where
  "loadShader shader_type shader_string s =
     (let (shader_id, s1) = glCreateShader shader_type s;
          s2 = emit (ShaderSource shader_id shader_string) s1;
          s3 = emit (CompileShader shader_id) s2
      in case gl_compile s3 shader_type shader_string of
           Some errorLog \<Rightarrow> (0, emit (DeleteShader shader_id) (fputs errorLog s3))
         | None \<Rightarrow> (shader_id, s3))"

text \<open>A null source pointer is \<open>None\<close>.\<close>

definition loadStage ::
  "shader_type \<Rightarrow> string option \<Rightarrow> ('a, 'v) gl_state \<Rightarrow> GLuint \<times> ('a, 'v) gl_state" where
  "loadStage t src s = (case src of None \<Rightarrow> (0, s) | Some str \<Rightarrow> loadShader t str s)"

definition deleteIf :: "GLuint \<Rightarrow> ('a, 'v) gl_state \<Rightarrow> ('a, 'v) gl_state" where
  "deleteIf sh s = (if sh \<noteq> 0 then emit (DeleteShader sh) s else s)"

definition loadProgram ::
  "string option \<Rightarrow> string option \<Rightarrow> string option \<Rightarrow> ('a, 'v) gl_state
     \<Rightarrow> GLuint \<times> ('a, 'v) gl_state" where
  "loadProgram vertex_string fragment_string geometry_string s =
     (let (vertex_shader, s1) = loadStage GL_VERTEX_SHADER vertex_string s;
          (fragment_shader, s2) = loadStage GL_FRAGMENT_SHADER fragment_string s1;
          (geometry_shader, s3) = loadStage GL_GEOMETRY_SHADER geometry_string s2;
          (shader_program, s4) = glCreateProgram s3;
          s5 = emit (AttachShader shader_program vertex_shader) s4;
          s6 = emit (AttachShader shader_program fragment_shader) s5;
          s7 = (if geometry_shader \<noteq> 0
                then emit (AttachShader shader_program geometry_shader) s6 else s6);
          s8 = emit (BindAttribLocation shader_program (attrib_index attrib_position)
                 ''i_position'') s7;
          s9 = emit (BindAttribLocation shader_program (attrib_index attrib_color)
                 ''i_color'') s8;
          s10 = emit (LinkProgram shader_program) s9;
          s11 = emit (UseProgram shader_program) s10;
          s12 = deleteIf vertex_shader s11;
          s13 = deleteIf fragment_shader s12;
          s14 = deleteIf geometry_shader s13
      in (shader_program, s14))"

text \<open>What the claims about the loader are stated with: the name the driver hands
  out next, how many stages were given, and, for one stage with the names left at that
  point, the handle it yields, the calls it issues and the info log it writes.\<close>

definition next_name :: "GLuint list \<Rightarrow> GLuint" where
  "next_name ns = (case ns of [] \<Rightarrow> 0 | n # _ \<Rightarrow> n)"

definition given :: "string option \<Rightarrow> nat" where
  "given src = (case src of None \<Rightarrow> 0 | Some _ \<Rightarrow> 1)"

definition stage_handle ::
  "(shader_type \<Rightarrow> string \<Rightarrow> string option) \<Rightarrow> GLuint list \<Rightarrow> shader_type \<Rightarrow> string option
     \<Rightarrow> GLuint" where
  "stage_handle compile ns t src =
     (case src of None \<Rightarrow> 0
      | Some str \<Rightarrow> (case compile t str of None \<Rightarrow> next_name ns | Some errorLog \<Rightarrow> 0))"

definition stage_calls ::
  "(shader_type \<Rightarrow> string \<Rightarrow> string option) \<Rightarrow> GLuint list \<Rightarrow> shader_type \<Rightarrow> string option
     \<Rightarrow> ('a, 'v) gl_call list" where
  "stage_calls compile ns t src =
     (case src of None \<Rightarrow> []
      | Some str \<Rightarrow>
          [CreateShader t (next_name ns), ShaderSource (next_name ns) str,
           CompileShader (next_name ns)]
          @ (case compile t str of None \<Rightarrow> [] | Some errorLog \<Rightarrow> [DeleteShader (next_name ns)]))"

definition stage_log :: "('a, 'v) gl_state \<Rightarrow> shader_type \<Rightarrow> string option \<Rightarrow> string" where
  "stage_log s t src =
     (case src of None \<Rightarrow> []
      | Some str \<Rightarrow> (case gl_compile s t str of None \<Rightarrow> [] | Some errorLog \<Rightarrow> errorLog))"

text \<open>The one call of a statement that is guarded by a test.\<close>

definition call_if :: "bool \<Rightarrow> ('a, 'v) gl_call \<Rightarrow> ('a, 'v) gl_call list" where
  "call_if b c = (if b then [c] else [])"

section \<open>Buffer\<close>

text \<open>Modelled from the spec: data_descriptor_element_t is declared in gl.h, which
  is not part of the sources at hand; the spec gives an attribute a component count, a
  numeric kind and a byte length, the three members that generate() reads. An element
  type is known to a buffer by its descriptor and its size in bytes.\<close>

record data_descriptor_element_t =
  elements :: nat
  gl_enum :: GLuint
  length_bytes :: nat

record ElementType =
  descriptor :: "data_descriptor_element_t list"
  sizeof :: nat

definition GL_STATIC_DRAW :: GLuint where
  "GL_STATIC_DRAW = 0x88E4"

text \<open>
  The members of BufferBase and Buffer. The mutex is left out: no operation takes it.
  \<open>element_type\<close> is the template argument the object was made with, which the
  virtual calls use.
\<close>

record 'v Buffer =
  m_vao :: GLuint
  m_vbo :: GLuint
  m_geometry_offset :: nat
  m_storage_hint :: GLuint
  m_geometry_type :: Primitive
  m_dirty :: bool
  m_generated :: bool
  m_data :: "'v list"
  element_type :: ElementType

definition Buffer_create :: "ElementType \<Rightarrow> 'v Buffer" where
  "Buffer_create et =
     \<lparr>m_vao = 0, m_vbo = 0, m_geometry_offset = 0, m_storage_hint = GL_STATIC_DRAW,
      m_geometry_type = TRIANGLES, m_dirty = True, m_generated = False, m_data = [],
      element_type = et\<rparr>"

text \<open>The loop of generate() over the descriptor, with its index and offset.\<close>

fun generate_attribs ::
  "data_descriptor_element_t list \<Rightarrow> nat \<Rightarrow> nat \<Rightarrow> nat \<Rightarrow> ('a, 'v) gl_state
     \<Rightarrow> ('a, 'v) gl_state" where
  "generate_attribs [] stride index offset s = s"
| "generate_attribs (attrib # rest) stride index offset s =
     generate_attribs rest stride (index + 1) (offset + length_bytes attrib)
       (emit (VertexAttribPointer index (elements attrib) (gl_enum attrib) stride offset)
          (emit (EnableVertexAttribArray index) s))"

definition Buffer_generate ::
  "'v Buffer \<Rightarrow> ('a, 'v) gl_state \<Rightarrow> 'v Buffer \<times> ('a, 'v) gl_state" where
  "Buffer_generate b s =
     (let (vao, s1) = glGenVertexArrays s;
          (vbo, s2) = glGenBuffers s1;
          s3 = emit (BindVertexArray vao) s2;
          s4 = emit (BindBuffer vbo) s3;
          s5 = generate_attribs (descriptor (element_type b)) (sizeof (element_type b)) 0 0 s4
      in (b\<lparr>m_vao := vao, m_vbo := vbo, m_generated := True\<rparr>, s5))"

definition Buffer_destroy ::
  "'v Buffer \<Rightarrow> ('a, 'v) gl_state \<Rightarrow> 'v Buffer \<times> ('a, 'v) gl_state" where
  "Buffer_destroy b s =
     (let s1 = (if m_vbo b \<noteq> 0 then emit (DeleteBuffers (m_vbo b)) s else s);
          s2 = (if m_vao b \<noteq> 0 then emit (DeleteBuffers (m_vao b)) s1 else s1)
      in (b\<lparr>m_vbo := 0, m_vao := 0\<rparr>, s2))"

definition Buffer_bind ::
  "'v Buffer \<Rightarrow> ('a, 'v) gl_state \<Rightarrow> bool \<times> 'v Buffer \<times> ('a, 'v) gl_state" where
  "Buffer_bind b s =
     (let (b1, s1) = (if \<not> m_generated b then Buffer_generate b s else (b, s))
      in if m_vao b1 = 0 \<or> m_vbo b1 = 0 then (False, b1, s1)
         else (True, b1, emit (BindBuffer (m_vbo b1)) (emit (BindVertexArray (m_vao b1)) s1)))"

definition Buffer_upload ::
  "'v Buffer \<Rightarrow> ('a, 'v) gl_state \<Rightarrow> 'v Buffer \<times> ('a, 'v) gl_state" where
  "Buffer_upload b s =
     (if m_dirty b
      then (b\<lparr>m_dirty := False\<rparr>,
            emit (BufferData (length (m_data b) * sizeof (element_type b)) (m_data b)
                    (m_storage_hint b)) s)
      else (b, s))"

text \<open>glDrawArrays takes its first vertex as GLint and its count as GLsizei, so the
  size_t values of the source are cut to 32 bits at the call.\<close>

definition Buffer_render ::
  "'v Buffer \<Rightarrow> ('a, 'v) gl_state \<Rightarrow> 'v Buffer \<times> ('a, 'v) gl_state" where
  "Buffer_render b s =
     (let (ok, b1, s1) = Buffer_bind b s
      in if ok
         then (let (b2, s2) = Buffer_upload b1 s1
               in (b2, emit (DrawArrays (m_geometry_type b2)
                               (word_of_nat (m_geometry_offset b2))
                               (word_of_nat (length (m_data b2)))) s2))
         else (b1, s1))"

text \<open>data() hands out the sequence for writing and sets the flag; what the caller
  then writes through the reference is \<open>Buffer_write\<close>.\<close>

definition Buffer_data :: "'v Buffer \<Rightarrow> 'v list \<times> 'v Buffer" where
  "Buffer_data b = (m_data b, b\<lparr>m_dirty := True\<rparr>)"

definition Buffer_write :: "('v list \<Rightarrow> 'v list) \<Rightarrow> 'v Buffer \<Rightarrow> 'v Buffer" where
  "Buffer_write f b = b\<lparr>m_data := f (m_data b)\<rparr>"

definition Buffer_cdata :: "'v Buffer \<Rightarrow> 'v list" where
  "Buffer_cdata b = m_data b"

definition Buffer_size :: "'v Buffer \<Rightarrow> nat" where
  "Buffer_size b = length (m_data b)"

definition Buffer_add_vertex :: "'v \<Rightarrow> 'v Buffer \<Rightarrow> 'v Buffer" where
  "Buffer_add_vertex elem b = b\<lparr>m_dirty := True, m_data := m_data b @ [elem]\<rparr>"

text \<open>The part of "GPU storage exists iff the generation flag is true" that every
  operation keeps: a buffer that was never generated holds no handle.\<close>

definition handles_only_if_generated :: "'v Buffer \<Rightarrow> bool" where
  "handles_only_if_generated b = (m_generated b \<or> (m_vao b = 0 \<and> m_vbo b = 0))"

text \<open>Calls on one buffer, for the claims about sequences of calls. \<open>Call_data f\<close>
  is data() followed by the caller writing \<open>f\<close> of the sequence through the reference.\<close>

datatype 'v buffer_call =
    Call_data "'v list \<Rightarrow> 'v list"
  | Call_add_vertex 'v
  | Call_upload

fun buffer_step ::
  "'v buffer_call \<Rightarrow> 'v Buffer \<times> ('a, 'v) gl_state \<Rightarrow> 'v Buffer \<times> ('a, 'v) gl_state" where
  "buffer_step (Call_data f) (b, s) = (Buffer_write f (snd (Buffer_data b)), s)"
| "buffer_step (Call_add_vertex elem) (b, s) = (Buffer_add_vertex elem b, s)"
| "buffer_step Call_upload (b, s) = Buffer_upload b s"

definition buffer_run ::
  "'v buffer_call list \<Rightarrow> 'v Buffer \<times> ('a, 'v) gl_state \<Rightarrow> 'v Buffer \<times> ('a, 'v) gl_state" where
  "buffer_run cs bs = fold buffer_step cs bs"

fun is_upload :: "'v buffer_call \<Rightarrow> bool" where
  "is_upload Call_upload = True"
| "is_upload _ = False"

text \<open>The draw calls among the calls issued.\<close>

fun is_draw :: "('a, 'v) gl_call \<Rightarrow> bool" where
  "is_draw (DrawArrays _ _ _) = True"
| "is_draw _ = False"

definition draw_calls :: "('a, 'v) gl_state \<Rightarrow> ('a, 'v) gl_call list" where
  "draw_calls s = filter is_draw (gl_calls s)"

section \<open>Mesh\<close>

text \<open>
  Meshes and buffers are held through shared pointers, so one object can be reached
  from several places. Objects live in a store, and a pointer is an address in it; the
  null pointer is not an address. The mutex of the buffer list is left out: no
  operation takes it.
\<close>

type_synonym ptr = nat

record 'a Mesh =
  m_transform :: "'a mat4"
  m_origin :: "'a vec3"
  m_position :: "'a vec3"
  m_scale :: "'a vec3"
  m_rotation :: "'a quat"
  m_visible :: bool
  m_transform_dirty :: bool
  m_shader_dirty :: bool
  m_delete :: bool
  m_buffer :: "ptr list"
  m_shader_program :: GLuint
  m_shader_index_mvp :: GLuint

record ('a, 'v) world =
  gl :: "('a, 'v) gl_state"
  buffers :: "ptr \<Rightarrow> 'v Buffer"
  meshes :: "ptr \<Rightarrow> 'a Mesh"

text \<open>Mesh::create(buffer): a new mesh with its initial members and the one
  buffer; \<open>rot\<close> is the value-initialised quaternion of glm.\<close>

definition Mesh_create :: "'a::comm_ring_1 quat \<Rightarrow> ptr \<Rightarrow> 'a Mesh" where
  "Mesh_create rot buffer =
     \<lparr>m_transform = mat4_identity, m_origin = Vec3 0 0 0, m_position = Vec3 0 0 0,
      m_scale = Vec3 1 1 1, m_rotation = rot, m_visible = True, m_transform_dirty = True,
      m_shader_dirty = True, m_delete = False, m_buffer = [] @ [buffer],
      m_shader_program = 0, m_shader_index_mvp = 0\<rparr>"

definition build_transform :: "'a::comm_ring_1 Mesh \<Rightarrow> 'a Mesh" where
  "build_transform m =
     (let m1 = m\<lparr>m_transform := glm_translate mat4_identity (m_position m)\<rparr>;
          m2 = m1\<lparr>m_transform := mat4_mul (m_transform m1) (glm_mat4_cast (m_rotation m1))\<rparr>;
          m3 = m2\<lparr>m_transform := glm_scale (m_transform m2) (m_scale m2)\<rparr>
      in m3\<lparr>m_transform := glm_translate (m_transform m3) (m_origin m3)\<rparr>)"

definition update_shader_locations :: "'a Mesh \<Rightarrow> ('a, 'v) gl_state \<Rightarrow> 'a Mesh" where
  "update_shader_locations m s =
     m\<lparr>m_shader_index_mvp := gl_uniform s (m_shader_program m) ''u_mvp''\<rparr>"

definition set_shader_program :: "GLuint \<Rightarrow> 'a Mesh \<Rightarrow> 'a Mesh" where
  "set_shader_program program m = m\<lparr>m_shader_program := program\<rparr>"

text \<open>buffer->render() and buffer->destroy() through a pointer of the store.\<close>

definition render_at :: "ptr \<Rightarrow> ('a, 'v) world \<Rightarrow> ('a, 'v) world" where
  "render_at p w =
     (let (b, s) = Buffer_render (buffers w p) (gl w)
      in w\<lparr>gl := s, buffers := (buffers w)(p := b)\<rparr>)"

definition destroy_at :: "ptr \<Rightarrow> ('a, 'v) world \<Rightarrow> ('a, 'v) world" where
  "destroy_at p w =
     (let (b, s) = Buffer_destroy (buffers w p) (gl w)
      in w\<lparr>gl := s, buffers := (buffers w)(p := b)\<rparr>)"

definition Mesh_render ::
  "'a::comm_ring_1 mat4 \<Rightarrow> ptr \<Rightarrow> ('a, 'v) world \<Rightarrow> ('a, 'v) world" where
  "Mesh_render global_transform p w =
     (let m = meshes w p
      in if \<not> m_visible m then w
         else
           (let m1 = (if m_transform_dirty m
                      then (build_transform m)\<lparr>m_transform_dirty := False\<rparr> else m);
                m2 = (if m_shader_dirty m1
                      then (update_shader_locations m1 (gl w))\<lparr>m_shader_dirty := False\<rparr>
                      else m1);
                s1 = emit (UseProgram (m_shader_program m2)) (gl w);
                global_transform1 = mat4_mul global_transform (m_transform m2);
                s2 = emit (UniformMatrix4fv (m_shader_index_mvp m2) global_transform1) s1
            in fold render_at (m_buffer m2) (w\<lparr>gl := s2, meshes := (meshes w)(p := m2)\<rparr>)))"

definition free_gpu_resources :: "ptr \<Rightarrow> ('a, 'v) world \<Rightarrow> ('a, 'v) world" where
  "free_gpu_resources p w = fold destroy_at (m_buffer (meshes w p)) w"

text \<open>buffer<VertexType>(): the last pointer of the list, whatever the type argument.
  back() of an empty vector is undefined; the model answers \<open>None\<close> there.\<close>

definition Mesh_buffer :: "ElementType \<Rightarrow> 'a Mesh \<Rightarrow> ptr option" where
  "Mesh_buffer VertexType m = (if m_buffer m = [] then None else Some (last (m_buffer m)))"

section \<open>Renderer\<close>

record Renderer =
  m_mesh :: "ptr list"

definition MAX_BUFFER_SIZE :: nat where
  "MAX_BUFFER_SIZE = 100000"

text \<open>std::remove_if applies the predicate once to each element, front to back, and
  keeps, in their order, the elements it rejects. The predicate of render() has an effect
  on the world, so the world is passed along.\<close>

fun remove_if ::
  "(ptr \<Rightarrow> ('a, 'v) world \<Rightarrow> bool \<times> ('a, 'v) world) \<Rightarrow> ptr list \<Rightarrow> ('a, 'v) world
     \<Rightarrow> ptr list \<times> ('a, 'v) world" where
  "remove_if pred [] w = ([], w)"
| "remove_if pred (p # ps) w =
     (let (b, w1) = pred p w;
          (kept, w2) = remove_if pred ps w1
      in (if b then kept else p # kept, w2))"

definition delete_pred :: "ptr \<Rightarrow> ('a, 'v) world \<Rightarrow> bool \<times> ('a, 'v) world" where
  "delete_pred mesh w =
     (if m_delete (meshes w mesh) then (True, free_gpu_resources mesh w) else (False, w))"

definition Renderer_render ::
  "'a::comm_ring_1 mat4 \<Rightarrow> Renderer \<Rightarrow> ('a, 'v) world \<Rightarrow> Renderer \<times> ('a, 'v) world" where
  "Renderer_render global_transform r w =
     (let (kept, w1) = remove_if delete_pred (m_mesh r) w;
          r1 = r\<lparr>m_mesh := kept\<rparr>
      in (r1, fold (Mesh_render global_transform) (m_mesh r1) w1))"


section \<open>A small scene\<close>

text \<open>
  Concrete objects on which the theorems below are exercised. vertex_data_t has a
  position and a normal of three floats and a colour of four; \<open>point_t\<close> is a second
  element type with a position only. The driver of \<open>scene_gl\<close> hands out the names 1
  to 6 and rejects the shader source \<open>''bad''\<close>.
\<close>

definition GL_FLOAT :: GLuint where
  "GL_FLOAT = 0x1406"

definition vertex_data_t :: ElementType where
  "vertex_data_t =
     \<lparr>descriptor =
        [\<lparr>elements = 3, gl_enum = GL_FLOAT, length_bytes = 12\<rparr>,
         \<lparr>elements = 3, gl_enum = GL_FLOAT, length_bytes = 12\<rparr>,
         \<lparr>elements = 4, gl_enum = GL_FLOAT, length_bytes = 16\<rparr>],
      sizeof = 40\<rparr>"

definition point_t :: ElementType where
  "point_t = \<lparr>descriptor = [\<lparr>elements = 3, gl_enum = GL_FLOAT, length_bytes = 12\<rparr>],
     sizeof = 12\<rparr>"

definition scene_gl :: "(int, nat) gl_state" where
  "scene_gl =
     \<lparr>gl_calls = [], gl_names = [1, 2, 3, 4, 5, 6],
      gl_compile = (\<lambda>t src. if src = ''bad'' then Some ''error'' else None),
      gl_uniform = (\<lambda>p n. p + 7), gl_stderr = []\<rparr>"

definition triangle_buffer :: "nat Buffer" where
  "triangle_buffer = fold Buffer_add_vertex [7, 8, 9] (Buffer_create vertex_data_t)"

definition point_buffer :: "nat Buffer" where
  "point_buffer = (Buffer_add_vertex 5 (Buffer_create point_t))\<lparr>m_geometry_type := POINTS\<rparr>"

definition mesh_A :: "int Mesh" where
  "mesh_A = Mesh_create (Quat 1 0 0 0) 20"

definition mesh_B :: "int Mesh" where
  "mesh_B = (Mesh_create (Quat 1 0 0 0) 21)\<lparr>m_delete := True\<rparr>"

definition mesh_C :: "int Mesh" where
  "mesh_C = (Mesh_create (Quat 1 0 0 0) 20)\<lparr>m_visible := False\<rparr>"

definition scene :: "(int, nat) world" where
  "scene =
     \<lparr>gl = scene_gl,
      buffers = (\<lambda>p. if p = 21 then point_buffer else triangle_buffer),
      meshes = (\<lambda>p. if p = 11 then mesh_B else if p = 12 then mesh_C else mesh_A)\<rparr>"

definition scene_renderer :: Renderer where
  "scene_renderer = \<lparr>m_mesh = [11, 10, 12]\<rparr>"

text \<open>The buffer of the scene after its first render, and after a destroy that
  follows it.\<close>

definition rendered_buffer :: "nat Buffer \<times> (int, nat) gl_state" where
  "rendered_buffer = Buffer_render triangle_buffer scene_gl"

definition destroyed_buffer :: "nat Buffer \<times> (int, nat) gl_state" where
  "destroyed_buffer = Buffer_destroy (fst rendered_buffer) (snd rendered_buffer)"

text \<open>The scene after mesh 10 was rendered once, and then with another program
  bound to that mesh; and mesh A with the point buffer attached after its own.\<close>

definition scene_rendered :: "(int, nat) world" where
  "scene_rendered = Mesh_render mat4_identity 10 scene"

definition scene_rebound :: "(int, nat) world" where
  "scene_rebound =
     scene_rendered\<lparr>meshes :=
       (meshes scene_rendered)(10 := set_shader_program 5 (meshes scene_rendered 10))\<rparr>"

definition mesh_AB :: "int Mesh" where
  "mesh_AB = mesh_A\<lparr>m_buffer := m_buffer mesh_A @ [21]\<rparr>"

section \<open>Properties of the shader loader\<close>

lemma fresh_fst: "fst (fresh s) = next_name (gl_names s)"
  by (simp add: fresh_def next_name_def split: list.splits)

lemma fresh_names: "gl_names (snd (fresh s)) = tl (gl_names s)"
  by (simp add: fresh_def split: list.splits)

lemma fresh_other:
  "gl_compile (snd (fresh s)) = gl_compile s"
  "gl_stderr (snd (fresh s)) = gl_stderr s"
  "gl_calls (snd (fresh s)) = gl_calls s"
  "gl_uniform (snd (fresh s)) = gl_uniform s"
  by (simp_all add: fresh_def split: list.splits)

lemma loadShader_fst:
  "fst (loadShader t src s) =
     (case gl_compile s t src of None \<Rightarrow> next_name (gl_names s) | Some _ \<Rightarrow> 0)"
  using fresh_fst [of s] fresh_other(1) [of s]
  by (cases "fresh s")
     (simp add: loadShader_def glCreateShader_def emit_def fputs_def Let_def split: option.splits)

lemma loadShader_names: "gl_names (snd (loadShader t src s)) = tl (gl_names s)"
  using fresh_names [of s]
  by (cases "fresh s")
     (simp add: loadShader_def glCreateShader_def emit_def fputs_def Let_def split: option.splits)

lemma loadShader_compile: "gl_compile (snd (loadShader t src s)) = gl_compile s"
  using fresh_other(1) [of s]
  by (cases "fresh s")
     (simp add: loadShader_def glCreateShader_def emit_def fputs_def Let_def split: option.splits)

lemma loadShader_stderr:
  "gl_stderr (snd (loadShader t src s)) = gl_stderr s @ stage_log s t (Some src)"
  using fresh_other(1,2) [of s]
  by (cases "fresh s")
     (simp add: loadShader_def glCreateShader_def emit_def fputs_def stage_log_def Let_def
        split: option.splits)

lemma loadStage_names: "gl_names (snd (loadStage t src s)) = drop (given src) (gl_names s)"
  by (cases src) (simp_all add: loadStage_def given_def loadShader_names drop_Suc)

lemma loadStage_compile: "gl_compile (snd (loadStage t src s)) = gl_compile s"
  by (cases src) (simp_all add: loadStage_def loadShader_compile)

lemma loadStage_stderr:
  "gl_stderr (snd (loadStage t src s)) = gl_stderr s @ stage_log s t src"
  by (cases src) (simp_all add: loadStage_def loadShader_stderr stage_log_def)

lemma deleteIf_other:
  "gl_stderr (deleteIf sh s) = gl_stderr s"
  "gl_names (deleteIf sh s) = gl_names s"
  by (simp_all add: deleteIf_def emit_def)

lemma stage_log_cong: "gl_compile s' = gl_compile s \<Longrightarrow> stage_log s' t src = stage_log s t src"
  by (cases src) (simp_all add: stage_log_def)

lemma loadProgram_fst:
  "fst (loadProgram v f g s) =
     next_name (drop (given v + given f + given g) (gl_names s))"
proof -
  obtain a s1 where 1: "loadStage GL_VERTEX_SHADER v s = (a, s1)" by fastforce
  obtain b s2 where 2: "loadStage GL_FRAGMENT_SHADER f s1 = (b, s2)" by fastforce
  obtain c s3 where 3: "loadStage GL_GEOMETRY_SHADER g s2 = (c, s3)" by fastforce
  obtain p s4 where 4: "fresh s3 = (p, s4)" by fastforce
  have n1: "gl_names s1 = drop (given v) (gl_names s)"
    using loadStage_names [of GL_VERTEX_SHADER v s] 1 by simp
  have n2: "gl_names s2 = drop (given f) (gl_names s1)"
    using loadStage_names [of GL_FRAGMENT_SHADER f s1] 2 by simp
  have n3: "gl_names s3 = drop (given g) (gl_names s2)"
    using loadStage_names [of GL_GEOMETRY_SHADER g s2] 3 by simp
  have "p = next_name (gl_names s3)"
    using fresh_fst [of s3] 4 by simp
  moreover have "fst (loadProgram v f g s) = p"
    by (simp add: loadProgram_def 1 2 3 4 glCreateProgram_def Let_def)
  ultimately show ?thesis
    by (simp add: n1 n2 n3 add.commute)
qed

lemma loadProgram_stderr:
  "gl_stderr (snd (loadProgram v f g s)) =
     gl_stderr s @ stage_log s GL_VERTEX_SHADER v @ stage_log s GL_FRAGMENT_SHADER f
       @ stage_log s GL_GEOMETRY_SHADER g"
proof -
  obtain a s1 where 1: "loadStage GL_VERTEX_SHADER v s = (a, s1)" by fastforce
  obtain b s2 where 2: "loadStage GL_FRAGMENT_SHADER f s1 = (b, s2)" by fastforce
  obtain c s3 where 3: "loadStage GL_GEOMETRY_SHADER g s2 = (c, s3)" by fastforce
  obtain p s4 where 4: "fresh s3 = (p, s4)" by fastforce
  have c1: "gl_compile s1 = gl_compile s"
    using loadStage_compile [of GL_VERTEX_SHADER v s] 1 by simp
  have c2: "gl_compile s2 = gl_compile s"
    using loadStage_compile [of GL_FRAGMENT_SHADER f s1] 2 c1 by simp
  have e1: "gl_stderr s1 = gl_stderr s @ stage_log s GL_VERTEX_SHADER v"
    using loadStage_stderr [of GL_VERTEX_SHADER v s] 1 by simp
  have e2: "gl_stderr s2 = gl_stderr s1 @ stage_log s GL_FRAGMENT_SHADER f"
    using loadStage_stderr [of GL_FRAGMENT_SHADER f s1] 2 stage_log_cong [OF c1] by simp
  have e3: "gl_stderr s3 = gl_stderr s2 @ stage_log s GL_GEOMETRY_SHADER g"
    using loadStage_stderr [of GL_GEOMETRY_SHADER g s2] 3 stage_log_cong [OF c2] by simp
  have e4: "gl_stderr s4 = gl_stderr s3"
    using fresh_other(2) [of s3] 4 by simp
  have "gl_stderr (snd (loadProgram v f g s)) = gl_stderr s4"
    by (simp add: loadProgram_def 1 2 3 4 glCreateProgram_def Let_def emit_def deleteIf_other)
  then show ?thesis
    by (simp add: e1 e2 e3 e4)
qed

lemma fresh_eq: "fresh s = (next_name (gl_names s), s\<lparr>gl_names := tl (gl_names s)\<rparr>)"
  by (cases s) (simp add: fresh_def next_name_def split: list.splits)

lemma loadShader_eq:
  "loadShader t src s =
     (case gl_compile s t src of None \<Rightarrow> next_name (gl_names s) | Some errorLog \<Rightarrow> 0,
      s\<lparr>gl_calls := gl_calls s
           @ [CreateShader t (next_name (gl_names s)), ShaderSource (next_name (gl_names s)) src,
              CompileShader (next_name (gl_names s))]
           @ (case gl_compile s t src of None \<Rightarrow> []
              | Some errorLog \<Rightarrow> [DeleteShader (next_name (gl_names s))]),
         gl_names := tl (gl_names s),
         gl_stderr := gl_stderr s
           @ (case gl_compile s t src of None \<Rightarrow> [] | Some errorLog \<Rightarrow> errorLog)\<rparr>)"
  by (cases s)
     (simp add: loadShader_def glCreateShader_def fresh_eq emit_def fputs_def Let_def
        split: option.splits)

lemma loadStage_eq:
  "loadStage t src s =
     (stage_handle (gl_compile s) (gl_names s) t src,
      s\<lparr>gl_calls := gl_calls s @ stage_calls (gl_compile s) (gl_names s) t src,
         gl_names := drop (given src) (gl_names s),
         gl_stderr := gl_stderr s @ stage_log s t src\<rparr>)"
  by (cases s; cases src)
     (simp_all add: loadStage_def loadShader_eq stage_handle_def stage_calls_def given_def
        stage_log_def drop_Suc split: option.splits)

lemma stage_log_update [simp]:
  "stage_log (s\<lparr>gl_calls := cs, gl_names := ns, gl_stderr := e\<rparr>) t src = stage_log s t src"
  by (cases src) (simp_all add: stage_log_def)

lemma deleteIf_eq:
  "deleteIf sh s = s\<lparr>gl_calls := gl_calls s @ call_if (sh \<noteq> 0) (DeleteShader sh)\<rparr>"
  by (simp add: deleteIf_def emit_def call_if_def)

lemma emit_if:
  "(if b then emit c s else s) = s\<lparr>gl_calls := gl_calls s @ call_if b c\<rparr>"
  by (simp add: emit_def call_if_def)

lemma loadProgram_calls:
  "loadProgram v f g s =
     (next_name (drop (given g) (drop (given f) (drop (given v) (gl_names s)))),
      s\<lparr>gl_calls := gl_calls s
           @ stage_calls (gl_compile s) (gl_names s) GL_VERTEX_SHADER v
           @ stage_calls (gl_compile s) (drop (given v) (gl_names s)) GL_FRAGMENT_SHADER f
           @ stage_calls (gl_compile s) (drop (given f) (drop (given v) (gl_names s)))
               GL_GEOMETRY_SHADER g
           @ [CreateProgram
                (next_name (drop (given g) (drop (given f) (drop (given v) (gl_names s))))),
              AttachShader
                (next_name (drop (given g) (drop (given f) (drop (given v) (gl_names s)))))
                (stage_handle (gl_compile s) (gl_names s) GL_VERTEX_SHADER v),
              AttachShader
                (next_name (drop (given g) (drop (given f) (drop (given v) (gl_names s)))))
                (stage_handle (gl_compile s) (drop (given v) (gl_names s)) GL_FRAGMENT_SHADER f)]
           @ call_if
               (stage_handle (gl_compile s) (drop (given f) (drop (given v) (gl_names s)))
                  GL_GEOMETRY_SHADER g \<noteq> 0)
               (AttachShader
                  (next_name (drop (given g) (drop (given f) (drop (given v) (gl_names s)))))
                  (stage_handle (gl_compile s) (drop (given f) (drop (given v) (gl_names s)))
                     GL_GEOMETRY_SHADER g))
           @ [BindAttribLocation
                (next_name (drop (given g) (drop (given f) (drop (given v) (gl_names s)))))
                0 ''i_position'',
              BindAttribLocation
                (next_name (drop (given g) (drop (given f) (drop (given v) (gl_names s)))))
                2 ''i_color'',
              LinkProgram
                (next_name (drop (given g) (drop (given f) (drop (given v) (gl_names s))))),
              UseProgram
                (next_name (drop (given g) (drop (given f) (drop (given v) (gl_names s)))))]
           @ call_if (stage_handle (gl_compile s) (gl_names s) GL_VERTEX_SHADER v \<noteq> 0)
               (DeleteShader (stage_handle (gl_compile s) (gl_names s) GL_VERTEX_SHADER v))
           @ call_if
               (stage_handle (gl_compile s) (drop (given v) (gl_names s)) GL_FRAGMENT_SHADER f
                  \<noteq> 0)
               (DeleteShader
                  (stage_handle (gl_compile s) (drop (given v) (gl_names s))
                     GL_FRAGMENT_SHADER f))
           @ call_if
               (stage_handle (gl_compile s) (drop (given f) (drop (given v) (gl_names s)))
                  GL_GEOMETRY_SHADER g \<noteq> 0)
               (DeleteShader
                  (stage_handle (gl_compile s) (drop (given f) (drop (given v) (gl_names s)))
                     GL_GEOMETRY_SHADER g)),
         gl_names := tl (drop (given g) (drop (given f) (drop (given v) (gl_names s)))),
         gl_stderr := gl_stderr s @ stage_log s GL_VERTEX_SHADER v
           @ stage_log s GL_FRAGMENT_SHADER f @ stage_log s GL_GEOMETRY_SHADER g\<rparr>)"
  by (simp add: loadProgram_def loadStage_eq glCreateProgram_def fresh_eq deleteIf_eq emit_if
        Let_def emit_def del: drop_drop)

lemma loadProgram_eq:
  "loadProgram v f g s =
     (let compile = gl_compile s;
          ns1 = drop (given v) (gl_names s);
          ns2 = drop (given f) ns1;
          ns3 = drop (given g) ns2;
          vertex_shader = stage_handle compile (gl_names s) GL_VERTEX_SHADER v;
          fragment_shader = stage_handle compile ns1 GL_FRAGMENT_SHADER f;
          geometry_shader = stage_handle compile ns2 GL_GEOMETRY_SHADER g;
          shader_program = next_name ns3
      in (shader_program,
          s\<lparr>gl_calls := gl_calls s
               @ stage_calls compile (gl_names s) GL_VERTEX_SHADER v
               @ stage_calls compile ns1 GL_FRAGMENT_SHADER f
               @ stage_calls compile ns2 GL_GEOMETRY_SHADER g
               @ [CreateProgram shader_program,
                  AttachShader shader_program vertex_shader,
                  AttachShader shader_program fragment_shader]
               @ (if geometry_shader \<noteq> 0
                  then [AttachShader shader_program geometry_shader] else [])
               @ [BindAttribLocation shader_program 0 ''i_position'',
                  BindAttribLocation shader_program 2 ''i_color'',
                  LinkProgram shader_program,
                  UseProgram shader_program]
               @ (if vertex_shader \<noteq> 0 then [DeleteShader vertex_shader] else [])
               @ (if fragment_shader \<noteq> 0 then [DeleteShader fragment_shader] else [])
               @ (if geometry_shader \<noteq> 0 then [DeleteShader geometry_shader] else []),
             gl_names := tl ns3,
             gl_stderr := gl_stderr s @ stage_log s GL_VERTEX_SHADER v
               @ stage_log s GL_FRAGMENT_SHADER f @ stage_log s GL_GEOMETRY_SHADER g\<rparr>))"
  by (simp add: loadProgram_calls call_if_def Let_def del: drop_drop split del: if_split)

text \<open>
  C1, as the code has it. A stage that fails to compile makes loadShader write the
  driver's info log to stderr, delete the shader it created and return 0 for that
  stage; a stage that compiles is created, given its source, compiled and returned.
  loadProgram does not look at the result of a stage: after the stages it creates a
  program, attaches the vertex and fragment handles (0 for a failed stage) and a
  non-zero geometry handle, binds the two attribute locations, links the program, makes
  it current, deletes the stage shaders that are left and returns the name
  glCreateProgram gave it, which is the name the driver hands out after one name per
  given stage. So the handle is non-zero whenever the driver makes the program, whether
  the stages compiled or not, and stderr receives the logs of the failing stages,
  vertex first, then fragment, then geometry. Nothing else of the state changes.
\<close>

theorem loadProgram_returns_created_program:
  "loadShader t src s =
     (case gl_compile s t src of None \<Rightarrow> next_name (gl_names s) | Some errorLog \<Rightarrow> 0,
      s\<lparr>gl_calls := gl_calls s
           @ [CreateShader t (next_name (gl_names s)), ShaderSource (next_name (gl_names s)) src,
              CompileShader (next_name (gl_names s))]
           @ (case gl_compile s t src of None \<Rightarrow> []
              | Some errorLog \<Rightarrow> [DeleteShader (next_name (gl_names s))]),
         gl_names := tl (gl_names s),
         gl_stderr := gl_stderr s
           @ (case gl_compile s t src of None \<Rightarrow> [] | Some errorLog \<Rightarrow> errorLog)\<rparr>)
   \<and> fst (loadProgram v f g s) = next_name (drop (given v + given f + given g) (gl_names s))
   \<and> loadProgram v f g s =
     (let compile = gl_compile s;
          ns1 = drop (given v) (gl_names s);
          ns2 = drop (given f) ns1;
          ns3 = drop (given g) ns2;
          vertex_shader = stage_handle compile (gl_names s) GL_VERTEX_SHADER v;
          fragment_shader = stage_handle compile ns1 GL_FRAGMENT_SHADER f;
          geometry_shader = stage_handle compile ns2 GL_GEOMETRY_SHADER g;
          shader_program = next_name ns3
      in (shader_program,
          s\<lparr>gl_calls := gl_calls s
               @ stage_calls compile (gl_names s) GL_VERTEX_SHADER v
               @ stage_calls compile ns1 GL_FRAGMENT_SHADER f
               @ stage_calls compile ns2 GL_GEOMETRY_SHADER g
               @ [CreateProgram shader_program,
                  AttachShader shader_program vertex_shader,
                  AttachShader shader_program fragment_shader]
               @ (if geometry_shader \<noteq> 0
                  then [AttachShader shader_program geometry_shader] else [])
               @ [BindAttribLocation shader_program 0 ''i_position'',
                  BindAttribLocation shader_program 2 ''i_color'',
                  LinkProgram shader_program,
                  UseProgram shader_program]
               @ (if vertex_shader \<noteq> 0 then [DeleteShader vertex_shader] else [])
               @ (if fragment_shader \<noteq> 0 then [DeleteShader fragment_shader] else [])
               @ (if geometry_shader \<noteq> 0 then [DeleteShader geometry_shader] else []),
             gl_names := tl ns3,
             gl_stderr := gl_stderr s @ stage_log s GL_VERTEX_SHADER v
               @ stage_log s GL_FRAGMENT_SHADER f @ stage_log s GL_GEOMETRY_SHADER g\<rparr>))"
  using loadShader_eq [of t src s] loadProgram_fst [of v f g s] loadProgram_eq [of v f g s]
  by blast

theorem loadProgram_returns_created_program_witness:
  "gl_compile scene_gl GL_VERTEX_SHADER ''ok'' = None
   \<and> gl_compile scene_gl GL_FRAGMENT_SHADER ''fine'' = None
   \<and> fst (loadProgram (Some ''ok'') (Some ''fine'') None scene_gl) = 3
   \<and> gl_stderr (snd (loadProgram (Some ''ok'') (Some ''fine'') None scene_gl)) = []
   \<and> gl_calls (snd (loadProgram (Some ''ok'') (Some ''fine'') None scene_gl)) =
       [CreateShader GL_VERTEX_SHADER 1, ShaderSource 1 ''ok'', CompileShader 1,
        CreateShader GL_FRAGMENT_SHADER 2, ShaderSource 2 ''fine'', CompileShader 2,
        CreateProgram 3, AttachShader 3 1, AttachShader 3 2,
        BindAttribLocation 3 0 ''i_position'', BindAttribLocation 3 2 ''i_color'',
        LinkProgram 3, UseProgram 3, DeleteShader 1, DeleteShader 2]
   \<and> gl_compile scene_gl GL_VERTEX_SHADER ''bad'' = Some ''error''
   \<and> fst (loadShader GL_VERTEX_SHADER ''bad'' scene_gl) = 0
   \<and> gl_stderr (snd (loadShader GL_VERTEX_SHADER ''bad'' scene_gl)) = ''error''
   \<and> gl_calls (snd (loadShader GL_VERTEX_SHADER ''bad'' scene_gl)) =
       [CreateShader GL_VERTEX_SHADER 1, ShaderSource 1 ''bad'', CompileShader 1,
        DeleteShader 1]"
  using loadProgram_returns_created_program
    [of GL_VERTEX_SHADER "''bad''" scene_gl "Some ''ok''" "Some ''fine''" None]
  by (simp add: scene_gl_def given_def next_name_def stage_log_def stage_handle_def
        stage_calls_def Let_def)

text \<open>The vertex source \<open>''bad''\<close> does not compile, its log goes to stderr, and
  loadProgram returns the handle 3 of the program it made
  (1 and 2 went to the two shaders).\<close>

theorem loadProgram_failed_stage_counterexample:
  "gl_compile scene_gl GL_VERTEX_SHADER ''bad'' = Some ''error''
   \<and> fst (loadProgram (Some ''bad'') (Some ''ok'') None scene_gl) = 3
   \<and> fst (loadProgram (Some ''bad'') (Some ''ok'') None scene_gl) \<noteq> 0
   \<and> gl_stderr (snd (loadProgram (Some ''bad'') (Some ''ok'') None scene_gl)) = ''error''"
  by (simp add: loadProgram_fst loadProgram_stderr scene_gl_def given_def next_name_def
        stage_log_def)

section \<open>Properties of Buffer\<close>

lemma emit_fields:
  "gl_names (emit c s) = gl_names s"
  "gl_compile (emit c s) = gl_compile s"
  "gl_uniform (emit c s) = gl_uniform s"
  "gl_stderr (emit c s) = gl_stderr s"
  "gl_calls (emit c s) = gl_calls s @ [c]"
  by (simp_all add: emit_def)

lemma Buffer_generate_fst:
  "m_generated (fst (Buffer_generate b s))"
  "m_data (fst (Buffer_generate b s)) = m_data b"
  "m_dirty (fst (Buffer_generate b s)) = m_dirty b"
  by (simp_all add: Buffer_generate_def Let_def split: prod.splits)

lemma Buffer_destroy_fst: "fst (Buffer_destroy b s) = b\<lparr>m_vbo := 0, m_vao := 0\<rparr>"
  by (simp add: Buffer_destroy_def Let_def)

lemma Buffer_bind_generated:
  "m_generated b \<Longrightarrow> m_vao b = 0 \<or> m_vbo b = 0 \<Longrightarrow> Buffer_bind b s = (False, b, s)"
  by (auto simp add: Buffer_bind_def)

lemma Buffer_bind_inv: "handles_only_if_generated (fst (snd (Buffer_bind b s)))"
  using Buffer_generate_fst(1) [of b s]
  by (cases "Buffer_generate b s")
     (auto simp add: Buffer_bind_def handles_only_if_generated_def Let_def)

lemma Buffer_upload_inv:
  "handles_only_if_generated (fst (Buffer_upload b s)) = handles_only_if_generated b"
  by (simp add: Buffer_upload_def handles_only_if_generated_def)

lemma Buffer_render_inv: "handles_only_if_generated (fst (Buffer_render b s))"
proof -
  obtain ok b1 s1 where bind: "Buffer_bind b s = (ok, b1, s1)"
    by (metis prod_cases3)
  have inv1: "handles_only_if_generated b1"
    using Buffer_bind_inv [of b s] bind by simp
  show ?thesis
    using inv1 Buffer_upload_inv [of b1 s1]
    by (cases "Buffer_upload b1 s1") (simp add: Buffer_render_def bind Let_def)
qed

lemma handles_kept:
  "handles_only_if_generated b \<Longrightarrow>
     handles_only_if_generated (fst (Buffer_generate b s)) \<and>
     handles_only_if_generated (fst (Buffer_destroy b s)) \<and>
     handles_only_if_generated (fst (snd (Buffer_bind b s))) \<and>
     handles_only_if_generated (fst (Buffer_upload b s)) \<and>
     handles_only_if_generated (fst (Buffer_render b s)) \<and>
     handles_only_if_generated (snd (Buffer_data b)) \<and>
     handles_only_if_generated (Buffer_add_vertex elem b)"
  using Buffer_generate_fst(1) [of b s] Buffer_bind_inv [of b s] Buffer_render_inv [of b s]
  by (simp add: Buffer_upload_inv Buffer_destroy_fst)
     (simp add: handles_only_if_generated_def Buffer_data_def Buffer_add_vertex_def)

lemma rendered_buffer_eval:
  "rendered_buffer =
     (triangle_buffer\<lparr>m_vao := 1, m_vbo := 2, m_generated := True, m_dirty := False\<rparr>,
      scene_gl\<lparr>gl_names := [3, 4, 5, 6],
        gl_calls := [GenVertexArrays 1, GenBuffers 2, BindVertexArray 1, BindBuffer 2,
          EnableVertexAttribArray 0, VertexAttribPointer 0 3 GL_FLOAT 40 0,
          EnableVertexAttribArray 1, VertexAttribPointer 1 3 GL_FLOAT 40 12,
          EnableVertexAttribArray 2, VertexAttribPointer 2 4 GL_FLOAT 40 24,
          BindVertexArray 1, BindBuffer 2, BufferData 120 [7, 8, 9] GL_STATIC_DRAW,
          DrawArrays TRIANGLES 0 3]\<rparr>)"
  by (simp add: rendered_buffer_def Buffer_render_def Buffer_bind_def Buffer_generate_def
        Buffer_upload_def triangle_buffer_def Buffer_create_def Buffer_add_vertex_def
        glGenVertexArrays_def glGenBuffers_def fresh_def emit_def scene_gl_def
        vertex_data_t_def Let_def)

text \<open>
  C2, as the code has it. destroy() deletes the vertex buffer object when there is
  one and sets both handles to 0, but leaves the generation flag as it was. A generated
  buffer therefore stays generated after destroy(): the next bind() does not generate
  again and reports failure, and the next render() changes nothing and draws nothing.
  Of the invariant, the direction "a handle is set only if the buffer was generated" is
  kept by generate, destroy, bind, upload, render, data and add_vertex.
\<close>

theorem Buffer_destroy_keeps_flag:
  "m_vao (fst (Buffer_destroy b s)) = 0
   \<and> m_vbo (fst (Buffer_destroy b s)) = 0
   \<and> m_generated (fst (Buffer_destroy b s)) = m_generated b
   \<and> (m_vbo b \<noteq> 0 \<longrightarrow> DeleteBuffers (m_vbo b) \<in> set (gl_calls (snd (Buffer_destroy b s))))
   \<and> (m_generated b \<longrightarrow>
        Buffer_bind (fst (Buffer_destroy b s)) s' = (False, fst (Buffer_destroy b s), s')
        \<and> Buffer_render (fst (Buffer_destroy b s)) s' = (fst (Buffer_destroy b s), s'))
   \<and> (handles_only_if_generated b \<longrightarrow>
        handles_only_if_generated (fst (Buffer_generate b s)) \<and>
        handles_only_if_generated (fst (Buffer_destroy b s)) \<and>
        handles_only_if_generated (fst (snd (Buffer_bind b s))) \<and>
        handles_only_if_generated (fst (Buffer_upload b s)) \<and>
        handles_only_if_generated (fst (Buffer_render b s)) \<and>
        handles_only_if_generated (snd (Buffer_data b)) \<and>
        handles_only_if_generated (Buffer_add_vertex elem b))"
proof -
  let ?d = "fst (Buffer_destroy b s)"
  have fields: "m_vao ?d = 0" "m_vbo ?d = 0" "m_generated ?d = m_generated b"
    by (simp_all add: Buffer_destroy_fst)
  have del: "m_vbo b \<noteq> 0 \<longrightarrow> DeleteBuffers (m_vbo b) \<in> set (gl_calls (snd (Buffer_destroy b s)))"
    by (simp add: Buffer_destroy_def Let_def emit_def)
  have bind: "Buffer_bind ?d s' = (False, ?d, s')" if "m_generated b"
    by (rule Buffer_bind_generated) (simp_all add: Buffer_destroy_fst that)
  have render: "Buffer_render ?d s' = (?d, s')" if "m_generated b"
    using bind [OF that] by (simp add: Buffer_render_def)
  show ?thesis
    using fields del bind render handles_kept [of b s elem] by blast
qed

theorem Buffer_destroy_keeps_flag_witness:
  "m_vbo (fst rendered_buffer) \<noteq> 0
   \<and> m_generated (fst rendered_buffer)
   \<and> handles_only_if_generated (fst rendered_buffer)
   \<and> m_vao (fst destroyed_buffer) = 0
   \<and> m_vbo (fst destroyed_buffer) = 0
   \<and> DeleteBuffers 2 \<in> set (gl_calls (snd destroyed_buffer))
   \<and> Buffer_render (fst destroyed_buffer) (snd destroyed_buffer) = destroyed_buffer
   \<and> handles_only_if_generated (fst destroyed_buffer)"
  using Buffer_destroy_keeps_flag
    [of "fst rendered_buffer" "snd rendered_buffer" "snd destroyed_buffer"]
  by (simp add: destroyed_buffer_def rendered_buffer_eval handles_only_if_generated_def)

text \<open>A buffer that was rendered once and then destroyed: its generation flag is
  still true, both handles are 0, bind() fails, and render() leaves it as it is.\<close>

theorem Buffer_destroy_resets_flag_counterexample:
  "m_generated (fst rendered_buffer)
   \<and> m_generated (fst destroyed_buffer)
   \<and> m_vao (fst destroyed_buffer) = 0
   \<and> m_vbo (fst destroyed_buffer) = 0
   \<and> \<not> fst (Buffer_bind (fst destroyed_buffer) (snd destroyed_buffer))
   \<and> Buffer_render (fst destroyed_buffer) (snd destroyed_buffer) = destroyed_buffer"
  by (simp add: destroyed_buffer_def rendered_buffer_eval Buffer_destroy_def Buffer_bind_def
        Buffer_render_def Let_def)

lemma buffer_step_dirty: "m_dirty (fst (buffer_step c bs)) = (\<not> is_upload c)"
  by (cases c; cases bs)
     (simp_all add: Buffer_write_def Buffer_data_def Buffer_add_vertex_def Buffer_upload_def)

lemma buffer_run_snoc: "buffer_run (cs @ [c]) bs = buffer_step c (buffer_run cs bs)"
  by (simp add: buffer_run_def)

lemma buffer_run_dirty:
  "cs \<noteq> [] \<Longrightarrow> m_dirty (fst (buffer_run cs bs)) = (\<not> is_upload (last cs))"
proof (cases cs rule: rev_cases)
  case Nil
  assume "cs \<noteq> []"
  with Nil show ?thesis by simp
next
  case (snoc cs' c)
  then show ?thesis
    by (simp add: buffer_run_snoc buffer_step_dirty)
qed

text \<open>
  C6. data() and add_vertex set the dirty flag, whatever the caller then writes (also
  nothing). upload() on a dirty buffer hands the whole sequence to glBufferData, with
  its size in bytes and the storage hint, and clears the flag; on a clean buffer it
  does nothing. After any non-empty sequence of these calls the flag is false exactly
  when the last call was upload(), and a single call that clears the flag is upload().
\<close>

theorem Buffer_dirty_flag:
  "m_dirty (snd (Buffer_data b))
   \<and> m_dirty (Buffer_write f (snd (Buffer_data b)))
   \<and> m_dirty (Buffer_add_vertex elem b)
   \<and> (m_dirty b \<longrightarrow>
        Buffer_upload b s =
          (b\<lparr>m_dirty := False\<rparr>,
           emit (BufferData (length (m_data b) * sizeof (element_type b)) (m_data b)
                   (m_storage_hint b)) s))
   \<and> (\<not> m_dirty b \<longrightarrow> Buffer_upload b s = (b, s))
   \<and> (cs \<noteq> [] \<longrightarrow> m_dirty (fst (buffer_run cs (b, s))) = (\<not> is_upload (last cs)))
   \<and> (m_dirty b \<and> \<not> m_dirty (fst (buffer_step c (b, s))) \<longrightarrow> c = Call_upload)"
proof -
  have "c = Call_upload" if "\<not> m_dirty (fst (buffer_step c (b, s)))"
    using that buffer_step_dirty [of c "(b, s)"] by (cases c) simp_all
  then show ?thesis
    using buffer_run_dirty [of cs "(b, s)"]
    by (simp add: Buffer_data_def Buffer_write_def Buffer_add_vertex_def Buffer_upload_def)
qed

theorem Buffer_dirty_flag_witness:
  "m_dirty triangle_buffer
   \<and> Buffer_upload triangle_buffer scene_gl =
       (triangle_buffer\<lparr>m_dirty := False\<rparr>,
        scene_gl\<lparr>gl_calls := [BufferData 120 [7, 8, 9] GL_STATIC_DRAW]\<rparr>)
   \<and> \<not> m_dirty (fst (Buffer_upload triangle_buffer scene_gl))
   \<and> Buffer_upload (fst (Buffer_upload triangle_buffer scene_gl)) scene_gl =
       (fst (Buffer_upload triangle_buffer scene_gl), scene_gl)
   \<and> \<not> m_dirty (fst (buffer_run [Call_add_vertex 4, Call_upload] (triangle_buffer, scene_gl)))
   \<and> m_dirty (fst (buffer_run [Call_upload, Call_data id] (triangle_buffer, scene_gl)))"
  using Buffer_dirty_flag [of triangle_buffer id 4 scene_gl "[Call_add_vertex 4, Call_upload]"
      Call_upload]
    Buffer_dirty_flag [of "fst (Buffer_upload triangle_buffer scene_gl)" id 4 scene_gl
      "[Call_upload, Call_data id]" Call_upload]
  by (simp add: triangle_buffer_def Buffer_create_def Buffer_add_vertex_def emit_def
        scene_gl_def vertex_data_t_def Buffer_upload_def buffer_run_def Buffer_data_def
        Buffer_write_def)

lemma fold_add_vertex: "m_data (fold Buffer_add_vertex vs b) = m_data b @ vs"
  by (induction vs arbitrary: b) (simp_all add: Buffer_add_vertex_def)

text \<open>
  C8. Appending the records of any sequence, one by one, to a new buffer and reading
  the sequence back with cdata() gives the same records in the same order, and size()
  is their number.
\<close>

theorem add_vertex_cdata_roundtrip:
  "Buffer_cdata (fold Buffer_add_vertex vs (Buffer_create et)) = vs
   \<and> Buffer_size (fold Buffer_add_vertex vs (Buffer_create et)) = length vs"
  by (simp add: Buffer_cdata_def Buffer_size_def fold_add_vertex Buffer_create_def)


theorem add_vertex_cdata_roundtrip_witness:
  "Buffer_cdata (fold Buffer_add_vertex [] (Buffer_create vertex_data_t :: nat Buffer)) = []
   \<and> Buffer_cdata (fold Buffer_add_vertex [7, 8, 9] (Buffer_create vertex_data_t)) = [7, 8, 9 :: nat]"
  using add_vertex_cdata_roundtrip [of "[]::nat list" vertex_data_t]
    add_vertex_cdata_roundtrip [of "[7, 8, 9 :: nat]" vertex_data_t]
  by simp

section \<open>Properties of Mesh\<close>

lemma build_transform_update:
  "build_transform m = m\<lparr>m_transform := m_transform (build_transform m)\<rparr>"
  by (simp add: build_transform_def Let_def)

lemma build_transform_fields:
  "m_visible (build_transform m) = m_visible m"
  "m_transform_dirty (build_transform m) = m_transform_dirty m"
  "m_shader_dirty (build_transform m) = m_shader_dirty m"
  "m_shader_program (build_transform m) = m_shader_program m"
  "m_shader_index_mvp (build_transform m) = m_shader_index_mvp m"
  "m_buffer (build_transform m) = m_buffer m"
  "m_delete (build_transform m) = m_delete m"
  by (simp_all add: build_transform_def Let_def)

lemma render_at_meshes: "meshes (render_at p w) = meshes w"
  by (simp add: render_at_def split: prod.splits)

lemma fold_render_at_meshes: "meshes (fold render_at ps w) = meshes w"
  by (induction ps arbitrary: w) (simp_all add: render_at_meshes)

lemma destroy_at_meshes: "meshes (destroy_at p w) = meshes w"
  by (simp add: destroy_at_def split: prod.splits)

lemma fold_destroy_at_meshes: "meshes (fold destroy_at ps w) = meshes w"
  by (induction ps arbitrary: w) (simp_all add: destroy_at_meshes)

lemma free_gpu_resources_meshes: "meshes (free_gpu_resources p w) = meshes w"
  by (simp add: free_gpu_resources_def fold_destroy_at_meshes)

lemma fresh_uniform: "gl_uniform (snd (fresh s)) = gl_uniform s"
  by (simp add: fresh_def split: list.splits)

lemma generate_attribs_uniform:
  "gl_uniform (generate_attribs ds stride i off s) = gl_uniform s"
  by (induction ds arbitrary: i off s) (simp_all add: emit_def)

lemma Buffer_generate_uniform: "gl_uniform (snd (Buffer_generate b s)) = gl_uniform s"
  by (simp add: Buffer_generate_def glGenVertexArrays_def glGenBuffers_def fresh_def emit_def
        generate_attribs_uniform Let_def split: list.splits)

lemma Buffer_render_uniform: "gl_uniform (snd (Buffer_render b s)) = gl_uniform s"
  using Buffer_generate_uniform [of b s]
  by (cases "Buffer_generate b s")
     (simp add: Buffer_render_def Buffer_bind_def Buffer_upload_def emit_def Let_def)

lemma render_at_uniform: "gl_uniform (gl (render_at p w)) = gl_uniform (gl w)"
  using Buffer_render_uniform [of "buffers w p" "gl w"]
  by (cases "Buffer_render (buffers w p) (gl w)") (simp add: render_at_def)

lemma fold_render_at_uniform: "gl_uniform (gl (fold render_at ps w)) = gl_uniform (gl w)"
  by (induction ps arbitrary: w) (simp_all add: render_at_uniform)

lemma Mesh_render_gl_uniform: "gl_uniform (gl (Mesh_render gt p w)) = gl_uniform (gl w)"
  by (simp add: Mesh_render_def Let_def fold_render_at_uniform emit_def)

lemma Mesh_render_invisible: "\<not> m_visible (meshes w p) \<Longrightarrow> Mesh_render gt p w = w"
  by (simp add: Mesh_render_def)

lemma Mesh_render_visible:
  "m_visible (meshes w p) \<Longrightarrow>
     meshes (Mesh_render gt p w) p =
       (meshes w p)
         \<lparr>m_transform :=
            (if m_transform_dirty (meshes w p) then m_transform (build_transform (meshes w p))
             else m_transform (meshes w p)),
          m_transform_dirty := False,
          m_shader_index_mvp :=
            (if m_shader_dirty (meshes w p)
             then gl_uniform (gl w) (m_shader_program (meshes w p)) ''u_mvp''
             else m_shader_index_mvp (meshes w p)),
          m_shader_dirty := False\<rparr>"
proof -
  define T where "T = m_transform (build_transform (meshes w p))"
  have bt: "build_transform (meshes w p) = (meshes w p)\<lparr>m_transform := T\<rparr>"
    unfolding T_def by (rule build_transform_update)
  assume "m_visible (meshes w p)"
  then show ?thesis
    by (simp add: Mesh_render_def Let_def fold_render_at_meshes update_shader_locations_def bt)
qed

text \<open>
  C7. render() of a mesh that is not visible issues no call to the rendering API at
  all, so no draw call, whatever its dirty flags and transform members are.
\<close>

theorem Mesh_render_invisible_no_draw:
  "\<not> m_visible (meshes w p) \<Longrightarrow>
     gl_calls (gl (Mesh_render gt p w)) = gl_calls (gl w)
     \<and> draw_calls (gl (Mesh_render gt p w)) = draw_calls (gl w)"
  by (simp add: Mesh_render_invisible)

theorem Mesh_render_invisible_no_draw_witness:
  "\<not> m_visible (meshes scene 12)
   \<and> m_transform_dirty (meshes scene 12)
   \<and> m_shader_dirty (meshes scene 12)
   \<and> draw_calls (gl (Mesh_render mat4_identity 12 scene)) = []"
  using Mesh_render_invisible_no_draw [of scene 12 mat4_identity]
  by (simp add: scene_def mesh_C_def Mesh_create_def draw_calls_def scene_gl_def)

text \<open>
  C9. render() of a mesh that is not visible returns the world as it was: no member of
  the mesh changes, the dirty flags stay set and the caches stay stale. render() of a
  visible mesh clears both flags, rebuilds the cached transform when the transform
  flag was set and asks for the uniform location when the shader flag was set.
\<close>

theorem Mesh_render_invisible_unchanged:
  "(\<not> m_visible (meshes w p) \<longrightarrow> Mesh_render gt p w = w)
   \<and> (m_visible (meshes w p) \<longrightarrow>
        \<not> m_transform_dirty (meshes (Mesh_render gt p w) p)
        \<and> \<not> m_shader_dirty (meshes (Mesh_render gt p w) p)
        \<and> m_transform (meshes (Mesh_render gt p w) p) =
            (if m_transform_dirty (meshes w p) then m_transform (build_transform (meshes w p))
             else m_transform (meshes w p))
        \<and> m_shader_index_mvp (meshes (Mesh_render gt p w) p) =
            (if m_shader_dirty (meshes w p)
             then gl_uniform (gl w) (m_shader_program (meshes w p)) ''u_mvp''
             else m_shader_index_mvp (meshes w p)))"
  by (simp add: Mesh_render_invisible Mesh_render_visible)

theorem Mesh_render_invisible_unchanged_witness:
  "\<not> m_visible (meshes scene 12)
   \<and> Mesh_render mat4_identity 12 scene = scene
   \<and> m_transform_dirty (meshes (Mesh_render mat4_identity 12 scene) 12)
   \<and> m_visible (meshes scene 10)
   \<and> m_shader_dirty (meshes scene 10)
   \<and> \<not> m_shader_dirty (meshes (Mesh_render mat4_identity 10 scene) 10)
   \<and> m_shader_index_mvp (meshes (Mesh_render mat4_identity 10 scene) 10) = 7"
  using Mesh_render_invisible_unchanged [of scene 12 mat4_identity]
    Mesh_render_invisible_unchanged [of scene 10 mat4_identity]
  by (simp add: scene_def mesh_C_def mesh_A_def Mesh_create_def scene_gl_def)

text \<open>
  C3, as the code has it. set_shader_program(p) replaces the bound program and nothing
  else: the shader-dirty flag, like every other flag, is what it was before the call.
  The next render() of the mesh, when it is visible, asks for the uniform location of
  the new program if the flag was set before the call, and keeps the cached location
  if it was not. Mesh has no other mutator: position, rotation, scale and visibility
  are members the caller writes, and the caller sets the flags.
\<close>

theorem set_shader_program_keeps_flags:
  "set_shader_program program m = m\<lparr>m_shader_program := program\<rparr>
   \<and> m_shader_dirty (set_shader_program program m) = m_shader_dirty m
   \<and> m_transform_dirty (set_shader_program program m) = m_transform_dirty m
   \<and> (m_visible (meshes w p) \<longrightarrow>
        m_shader_index_mvp
          (meshes (Mesh_render gt p
             (w\<lparr>meshes := (meshes w)(p := set_shader_program program (meshes w p))\<rparr>)) p) =
          (if m_shader_dirty (meshes w p) then gl_uniform (gl w) program ''u_mvp''
           else m_shader_index_mvp (meshes w p)))"
proof -
  let ?w = "w\<lparr>meshes := (meshes w)(p := set_shader_program program (meshes w p))\<rparr>"
  have "m_shader_index_mvp (meshes (Mesh_render gt p ?w) p) =
          (if m_shader_dirty (meshes w p) then gl_uniform (gl w) program ''u_mvp''
           else m_shader_index_mvp (meshes w p))"
    if "m_visible (meshes w p)"
    using Mesh_render_visible [of ?w p gt] that by (simp add: set_shader_program_def)
  then show ?thesis
    by (simp add: set_shader_program_def)
qed

theorem set_shader_program_keeps_flags_witness:
  "m_visible (meshes scene 10)
   \<and> m_shader_dirty (set_shader_program 5 (meshes scene 10))
   \<and> m_shader_index_mvp
       (meshes (Mesh_render mat4_identity 10
          (scene\<lparr>meshes := (meshes scene)(10 := set_shader_program 5 (meshes scene 10))\<rparr>)) 10)
       = 12"
  using set_shader_program_keeps_flags [of 5 "meshes scene 10" scene 10 mat4_identity]
  by (simp add: scene_def mesh_A_def Mesh_create_def scene_gl_def set_shader_program_def)

lemma scene_rendered_mesh:
  "meshes scene_rendered 10 =
     mesh_A\<lparr>m_transform := m_transform (build_transform mesh_A), m_transform_dirty := False,
       m_shader_index_mvp := 7, m_shader_dirty := False\<rparr>"
  using Mesh_render_visible [of scene 10 mat4_identity]
  by (simp add: scene_rendered_def scene_def mesh_A_def Mesh_create_def scene_gl_def)

text \<open>Mesh 10 of the scene was rendered once, so its shader-dirty flag is clear and
  its cached location is 7, that of program 0. After set_shader_program(5) the flag is
  still clear, and the next render() keeps the location 7 although program 5 has its
  uniform at 12.\<close>

theorem set_shader_program_dirty_counterexample:
  "\<not> m_shader_dirty (set_shader_program 5 (meshes scene_rendered 10))
   \<and> m_shader_program (meshes scene_rebound 10) = 5
   \<and> m_shader_index_mvp (meshes (Mesh_render mat4_identity 10 scene_rebound) 10) = 7
   \<and> gl_uniform (gl scene_rebound) 5 ''u_mvp'' = 12"
proof -
  have mesh: "meshes scene_rebound 10 = set_shader_program 5 (meshes scene_rendered 10)"
    by (simp add: scene_rebound_def)
  have vis: "m_visible (meshes scene_rebound 10)"
    by (simp add: mesh scene_rendered_mesh set_shader_program_def mesh_A_def Mesh_create_def)
  have "gl_uniform (gl scene_rendered) = gl_uniform scene_gl"
    by (simp add: scene_rendered_def Mesh_render_gl_uniform scene_def)
  then have uni: "gl_uniform (gl scene_rebound) 5 ''u_mvp'' = 12"
    by (simp add: scene_rebound_def scene_gl_def)
  show ?thesis
    using Mesh_render_visible [OF vis, of mat4_identity] uni
    by (simp add: mesh scene_rendered_mesh set_shader_program_def)
qed

text \<open>
  C10. buffer<VertexType>() of a mesh that holds a buffer answers the last pointer of
  the buffer list, the buffer attached most recently, and the answer is the same for
  every type argument; it does not look at the buffer, so not at its element type.
\<close>

theorem Mesh_buffer_is_last:
  "(m_buffer m \<noteq> [] \<longrightarrow> Mesh_buffer VertexType m = Some (last (m_buffer m)))
   \<and> Mesh_buffer VertexType m = Mesh_buffer OtherType m
   \<and> Mesh_buffer VertexType (m\<lparr>m_buffer := m_buffer m @ [buffer]\<rparr>) = Some buffer
   \<and> Mesh_buffer VertexType (Mesh_create rot buffer) = Some buffer"
  by (simp add: Mesh_buffer_def Mesh_create_def)

theorem Mesh_buffer_is_last_witness:
  "m_buffer mesh_AB = [20, 21]
   \<and> element_type (buffers scene 20) = vertex_data_t
   \<and> element_type (buffers scene 21) = point_t
   \<and> vertex_data_t \<noteq> point_t
   \<and> Mesh_buffer vertex_data_t mesh_AB = Some 21
   \<and> Mesh_buffer point_t mesh_AB = Some 21"
  using Mesh_buffer_is_last [of mesh_AB vertex_data_t point_t 21 "Quat 1 0 0 0"]
    Mesh_buffer_is_last [of mesh_AB point_t vertex_data_t 21 "Quat 1 0 0 0"]
  by (simp add: mesh_AB_def mesh_A_def Mesh_create_def scene_def triangle_buffer_def
        point_buffer_def Buffer_create_def Buffer_add_vertex_def vertex_data_t_def point_t_def
        Mesh_buffer_def)

section \<open>Properties of Renderer\<close>

lemma remove_if_delete_pred:
  "remove_if delete_pred ps w =
     (filter (\<lambda>p. \<not> m_delete (meshes w p)) ps,
      fold free_gpu_resources (filter (\<lambda>p. m_delete (meshes w p)) ps) w)"
proof (induction ps arbitrary: w)
  case Nil
  show ?case by simp
next
  case (Cons p ps)
  show ?case
  proof (cases "m_delete (meshes w p)")
    case True
    then show ?thesis
      using Cons.IH [of "free_gpu_resources p w"]
      by (simp add: delete_pred_def free_gpu_resources_meshes)
  next
    case False
    then show ?thesis
      using Cons.IH [of w] by (simp add: delete_pred_def)
  qed
qed

text \<open>The scene: mesh 11 is flagged, mesh 10 draws its three vertices as triangles,
  mesh 12 is not visible.\<close>

lemma scene_free_gl: "gl (free_gpu_resources 11 scene) = scene_gl"
  by (simp add: free_gpu_resources_def scene_def mesh_B_def Mesh_create_def destroy_at_def
        Buffer_destroy_def point_buffer_def Buffer_create_def Buffer_add_vertex_def Let_def)

lemma scene_free_buffer: "buffers (free_gpu_resources 11 scene) 20 = triangle_buffer"
  by (simp add: free_gpu_resources_def scene_def mesh_B_def Mesh_create_def destroy_at_def
        Buffer_destroy_def point_buffer_def Buffer_create_def Buffer_add_vertex_def Let_def)

lemma scene_free_meshes: "meshes (free_gpu_resources 11 scene) = meshes scene"
  by (simp add: free_gpu_resources_meshes)

lemma scene_draws:
  "draw_calls (gl (Mesh_render mat4_identity 10 (free_gpu_resources 11 scene))) =
     [DrawArrays TRIANGLES 0 3]"
  apply (simp add: Mesh_render_def scene_free_gl scene_free_buffer scene_free_meshes Let_def)
  apply (simp add: scene_def mesh_A_def Mesh_create_def render_at_def build_transform_fields
           update_shader_locations_def)
  apply (simp add: scene_free_gl scene_free_buffer scene_def [symmetric])
  apply (simp add: Buffer_render_def Buffer_bind_def Buffer_generate_def
           Buffer_upload_def triangle_buffer_def Buffer_create_def Buffer_add_vertex_def
           glGenVertexArrays_def glGenBuffers_def fresh_def emit_def scene_gl_def
           vertex_data_t_def Let_def draw_calls_def)
  done

lemma Mesh_render_other:
  "meshes (Mesh_render gt p w) q =
     (if q = p then meshes (Mesh_render gt p w) p else meshes w q)"
  by (simp add: Mesh_render_def Let_def fold_render_at_meshes)

lemma scene_invisible:
  "Mesh_render mat4_identity 12 (Mesh_render mat4_identity 10 (free_gpu_resources 11 scene)) =
     Mesh_render mat4_identity 10 (free_gpu_resources 11 scene)"
  by (rule Mesh_render_invisible)
     (simp add: Mesh_render_other free_gpu_resources_meshes scene_def mesh_C_def Mesh_create_def)

text \<open>
  C4. Renderer::render keeps in the collection exactly the meshes whose delete flag
  is not set, in their order; the world it leaves is that of calling
  free_gpu_resources on every flagged mesh, in collection order, and after that
  Mesh::render with the one global transform on every kept mesh, in collection order.
  No flagged mesh is in the collection afterwards.
\<close>

theorem Renderer_render_prunes_then_renders:
  "Renderer_render gt r w =
     (r\<lparr>m_mesh := filter (\<lambda>p. \<not> m_delete (meshes w p)) (m_mesh r)\<rparr>,
      fold (Mesh_render gt) (filter (\<lambda>p. \<not> m_delete (meshes w p)) (m_mesh r))
        (fold free_gpu_resources (filter (\<lambda>p. m_delete (meshes w p)) (m_mesh r)) w))
   \<and> set (m_mesh (fst (Renderer_render gt r w))) =
       set (m_mesh r) - {p. m_delete (meshes w p)}
   \<and> filter (\<lambda>p. m_delete (meshes w p)) (m_mesh (fst (Renderer_render gt r w))) = []"
proof -
  have eq: "Renderer_render gt r w =
     (r\<lparr>m_mesh := filter (\<lambda>p. \<not> m_delete (meshes w p)) (m_mesh r)\<rparr>,
      fold (Mesh_render gt) (filter (\<lambda>p. \<not> m_delete (meshes w p)) (m_mesh r))
        (fold free_gpu_resources (filter (\<lambda>p. m_delete (meshes w p)) (m_mesh r)) w))"
    by (simp add: Renderer_render_def remove_if_delete_pred)
  have "set (filter (\<lambda>p. \<not> m_delete (meshes w p)) (m_mesh r)) =
          set (m_mesh r) - {p. m_delete (meshes w p)}"
    by auto
  then show ?thesis
    by (simp add: eq)
qed

theorem Renderer_render_prunes_then_renders_witness:
  "m_delete (meshes scene 11)
   \<and> m_mesh scene_renderer = [11, 10, 12]
   \<and> m_mesh (fst (Renderer_render mat4_identity scene_renderer scene)) = [10, 12]
   \<and> draw_calls (gl (snd (Renderer_render mat4_identity scene_renderer scene))) =
       [DrawArrays TRIANGLES 0 3]"
  using Renderer_render_prunes_then_renders [of mat4_identity scene_renderer scene]
  by (simp add: scene_renderer_def scene_invisible scene_draws)
     (simp add: scene_def mesh_A_def mesh_B_def mesh_C_def Mesh_create_def)

end
